theory Spec2Isabelle
  imports Complex_Main
begin

section \<open>Python values, exceptions and string helpers\<close>

text \<open>
  The data values that flow through \<^verbatim>\<open>api/__init__.py\<close>: what SQLite rows hold, what
  the column descriptors store and what the JSON payload dictionaries carry. A dictionary
  keeps its insertion order, so it is an association list. Float rounding is not modelled:
  a float is carried as the real number it stands for.
\<close>

datatype pyval =
    PNone
  | PBool bool
  | PInt int
  | PFloat real
  | PStr string
  | PList "pyval list"
  | PDict "(string \<times> pyval) list"

type_synonym dict = "(string \<times> pyval) list"

text \<open>Python truthiness, as used by \<^verbatim>\<open>if not ex\<close> and \<^verbatim>\<open>if getattr(self, 'details', None)\<close>.\<close>

fun truthy :: "pyval \<Rightarrow> bool" where
  "truthy PNone = False"
| "truthy (PBool b) = b"
| "truthy (PInt i) = (i \<noteq> 0)"
| "truthy (PFloat r) = (r \<noteq> 0)"
| "truthy (PStr s) = (s \<noteq> [])"
| "truthy (PList xs) = (xs \<noteq> [])"
| "truthy (PDict kvs) = (kvs \<noteq> [])"

fun type_name :: "pyval \<Rightarrow> string" where
  "type_name PNone = ''NoneType''"
| "type_name (PBool b) = ''bool''"
| "type_name (PInt i) = ''int''"
| "type_name (PFloat r) = ''float''"
| "type_name (PStr s) = ''str''"
| "type_name (PList xs) = ''list''"
| "type_name (PDict kvs) = ''dict''"

text \<open>
  The classes derived from \<^verbatim>\<open>ApiException\<close>, the base class included: it is concrete
  and can be raised, but its constructor sets no \<^verbatim>\<open>code\<close> attribute.
\<close>

datatype api_class =
    ApiException
  | NotFound
  | MethodNotAllowed
  | InvalidArgument
  | Conflict
  | Timeout
  | InternalError
  | NotImplemented

text \<open>
  An exception object is either an instance of one of the API classes, with its message
  and its \<^verbatim>\<open>details\<close> attribute (\<open>PNone\<close> when none was given), or an instance of
  any other exception class, given by class name and message.
\<close>

datatype pyexc =
    ApiExc api_class string pyval
  | OtherExc string string

abbreviation ValueError :: "string \<Rightarrow> pyexc" where
  "ValueError msg \<equiv> OtherExc ''ValueError'' msg"

abbreviation TypeError :: "string \<Rightarrow> pyexc" where
  "TypeError msg \<equiv> OtherExc ''TypeError'' msg"

abbreviation AttributeError :: "string \<Rightarrow> pyexc" where
  "AttributeError msg \<equiv> OtherExc ''AttributeError'' msg"

abbreviation IndexError :: "string \<Rightarrow> pyexc" where
  "IndexError msg \<equiv> OtherExc ''IndexError'' msg"

text \<open>\<^verbatim>\<open>sep.join(xs)\<close> of Python.\<close>

fun join :: "string \<Rightarrow> string list \<Rightarrow> string" where
  "join sep [] = []"
| "join sep [x] = x"
| "join sep (x # y # ys) = x @ sep @ join sep (y # ys)"

section \<open>DataObject: column descriptors and SQL fragments\<close>

text \<open>
  One \<^verbatim>\<open>DotDict\<close> per column, built by \<^verbatim>\<open>DataObject.__init__\<close> with exactly the five
  keys below. The fields \<open>datatype\<close> and \<open>default\<close> of the source are named
  \<open>datatype_tag\<close> and \<open>default_val\<close> here.
\<close>

record column =
  name :: string
  datatype_tag :: string
  nullable :: bool
  default_val :: pyval
  primarykey :: bool

text \<open>A \<^verbatim>\<open>DataObject\<close> is a list of its column descriptors.\<close>

type_synonym DataObject = "column list"

definition columns :: "DataObject \<Rightarrow> string list" where
  "columns self = map name self"

definition primarykeys :: "DataObject \<Rightarrow> string list" where
  "primarykeys self = map name (filter primarykey self)"

text \<open>
  The loop of the non-empty \<^verbatim>\<open>include\<close> branch of \<^verbatim>\<open>get_column_objects\<close>
  (the debug log line of the source has no effect on the result):
  \<^verbatim>\<open>for col in self:
      if col.primarykey and include_primarykeys: flist.append(col)
      elif col.name in include and col.name not in exclude: flist.append(col)\<close>
\<close>

fun include_loop :: "column list \<Rightarrow> string list \<Rightarrow> string list \<Rightarrow> bool \<Rightarrow> column list" where
  "include_loop [] include exclude include_primarykeys = []"
| "include_loop (col # cols) include exclude include_primarykeys =
     (if primarykey col \<and> include_primarykeys
      then col # include_loop cols include exclude include_primarykeys
      else if name col \<in> set include \<and> name col \<notin> set exclude
      then col # include_loop cols include exclude include_primarykeys
      else include_loop cols include exclude include_primarykeys)"

definition get_column_objects ::
  "DataObject \<Rightarrow> string list \<Rightarrow> string list \<Rightarrow> bool \<Rightarrow> column list" where
  "get_column_objects self include exclude include_primarykeys =
     (let exclude = (if exclude \<noteq> [] \<and> include_primarykeys
                     then filter (\<lambda>col. col \<notin> set (primarykeys self)) exclude
                     else exclude)
      in if include = []
         then filter (\<lambda>col. name col \<notin> set exclude) self
         else include_loop self include exclude include_primarykeys)"

definition get_column_names ::
  "DataObject \<Rightarrow> string list \<Rightarrow> string list \<Rightarrow> bool \<Rightarrow> string list" where
  "get_column_names self include exclude include_primarykeys =
     map name (get_column_objects self include exclude include_primarykeys)"

definition select_typecast :: "column \<Rightarrow> string" where
  "select_typecast column =
     (if datatype_tag column = ''TIMESTAMP''
      then ''CAST(strftime('%s', '' @ name column @ '') as integer) AS '' @ name column
      else if datatype_tag column = ''DATETIME''
      then ''datetime('' @ name column @ '') AS '' @ name column
      else name column)"

text \<open>
  \<^verbatim>\<open>select_columns\<close> repeats the selection and the formatting inline; it calls neither
  \<^verbatim>\<open>get_column_objects\<close> nor \<^verbatim>\<open>select_typecast\<close>. Its two loops are
  \<open>flist_loop\<close> (selection) and \<open>slist_loop\<close> (formatting).
\<close>

fun flist_loop :: "column list \<Rightarrow> string list \<Rightarrow> string list \<Rightarrow> bool \<Rightarrow> column list" where
  "flist_loop [] include exclude include_primarykeys = []"
| "flist_loop (col # cols) include exclude include_primarykeys =
     (if primarykey col \<and> include_primarykeys
      then col # flist_loop cols include exclude include_primarykeys
      else if name col \<in> set include \<and> name col \<notin> set exclude
      then col # flist_loop cols include exclude include_primarykeys
      else flist_loop cols include exclude include_primarykeys)"

fun slist_loop :: "column list \<Rightarrow> string list" where
  "slist_loop [] = []"
| "slist_loop (col # flist) =
     (if datatype_tag col = ''TIMESTAMP''
      then (''CAST(strftime('%s', '' @ name col @ '') as integer) AS '' @ name col) # slist_loop flist
      else if datatype_tag col = ''DATETIME''
      then (''datetime('' @ name col @ '') AS '' @ name col) # slist_loop flist
      else name col # slist_loop flist)"

definition select_columns ::
  "DataObject \<Rightarrow> string list \<Rightarrow> string list \<Rightarrow> bool \<Rightarrow> string" where
  "select_columns self include exclude include_primarykeys =
     (let exclude = (if exclude \<noteq> [] \<and> include_primarykeys
                     then filter (\<lambda>col. col \<notin> set (primarykeys self)) exclude
                     else exclude);
          flist = (if include = []
                   then filter (\<lambda>col. name col \<notin> set exclude) self
                   else flist_loop self include exclude include_primarykeys)
      in join '', '' (slist_loop flist))"

text \<open>
  \<^verbatim>\<open>where_condition\<close>: the first descriptor with the given name, or
  \<^verbatim>\<open>raise ValueError("Non-existent column specified")\<close>. A descriptor always holds
  five keys, so \<^verbatim>\<open>not col\<close> is true only when the search found nothing.
\<close>

definition where_condition :: "DataObject \<Rightarrow> string \<Rightarrow> pyexc + string" where
  "where_condition self column =
     (case find (\<lambda>c. name c = column) self of
        None \<Rightarrow> Inl (ValueError ''Non-existent column specified'')
      | Some col \<Rightarrow>
          if datatype_tag col = ''TIMESTAMP''
          then Inr (''CAST(strftime('%s', '' @ name col @ '') as integer)'')
          else if datatype_tag col = ''DATETIME''
          then Inr (''datetime('' @ name col @ '')'')
          else Inr (name col))"

text \<open>
  \<^verbatim>\<open>DataObject.__init__\<close>: one descriptor per row of \<^verbatim>\<open>pragma_table_info\<close> whose name
  is not excluded. A row is \<^verbatim>\<open>(cid, name, type, notnull, dflt_value, pk)\<close>. (The query for
  the active session that follows in the source is not part of the column list.)
\<close>

record table_info_row =
  cid :: int
  row_name :: string
  row_type :: string
  notnull :: int
  dflt_value :: pyval
  pk :: int

definition DataObject_init :: "table_info_row list \<Rightarrow> string list \<Rightarrow> DataObject" where
  "DataObject_init cursor exclude =
     map (\<lambda>row. \<lparr>name = row_name row,
                datatype_tag = row_type row,
                nullable = (if notnull row = 0 then True else False),
                default_val = dflt_value row,
                primarykey = (if pk row = 1 then True else False)\<rparr>)
         (filter (\<lambda>row. row_name row \<notin> set exclude) cursor)"

subsection \<open>String conversion of descriptors\<close>

text \<open>The items a descriptor holds as a dictionary.\<close>

definition DotDict_items :: "column \<Rightarrow> dict" where
  "DotDict_items self =
     [(''name'', PStr (name self)),
      (''datatype'', PStr (datatype_tag self)),
      (''nullable'', PBool (nullable self)),
      (''default'', default_val self),
      (''primarykey'', PBool (primarykey self))]"

text \<open>
  \<^verbatim>\<open>__getattr__ = dict.get\<close>: an attribute that normal lookup does not find (neither
  \<^verbatim>\<open>dict\<close> nor \<^verbatim>\<open>DotDict\<close> defines one called \<^verbatim>\<open>getattr\<close>) is looked up as a key, and
  a missing key gives \<^verbatim>\<open>None\<close>.
\<close>

definition DotDict_getattr :: "column \<Rightarrow> string \<Rightarrow> pyval" where
  "DotDict_getattr self key =
     (case map_of (DotDict_items self) key of None \<Rightarrow> PNone | Some v \<Rightarrow> v)"

text \<open>Calling a data value: none of them is callable.\<close>

definition py_call :: "pyval \<Rightarrow> pyval list \<Rightarrow> pyexc + pyval" where
  "py_call f args =
     Inl (TypeError (CHR 0x27 # type_name f @ CHR 0x27 # '' object is not callable''))"

text \<open>\<^verbatim>\<open>DotDict.__str__\<close>: \<^verbatim>\<open>return self.getattr('name', '(null)')\<close>.\<close>

definition DotDict_str :: "column \<Rightarrow> pyexc + pyval" where
  "DotDict_str self = py_call (DotDict_getattr self ''getattr'') [PStr ''name'', PStr ''(null)'']"

text \<open>\<^verbatim>\<open>str(c)\<close> on a descriptor: \<^verbatim>\<open>__str__\<close> has to return a string.\<close>

definition str_column :: "column \<Rightarrow> pyexc + string" where
  "str_column c =
     (case DotDict_str c of
        Inl e \<Rightarrow> Inl e
      | Inr (PStr s) \<Rightarrow> Inr s
      | Inr v \<Rightarrow> Inl (TypeError (''__str__ returned non-string (type '' @ type_name v @ '')'')))"

text \<open>The list comprehension \<^verbatim>\<open>[str(c) for c in self]\<close> stops at the first exception.\<close>

fun str_each :: "column list \<Rightarrow> pyexc + string list" where
  "str_each [] = Inr []"
| "str_each (c # cs) =
     (case str_column c of
        Inl e \<Rightarrow> Inl e
      | Inr s \<Rightarrow> (case str_each cs of Inl e \<Rightarrow> Inl e | Inr ss \<Rightarrow> Inr (s # ss)))"

definition DataObject_str :: "DataObject \<Rightarrow> pyexc + string" where
  "DataObject_str self =
     (case str_each self of Inl e \<Rightarrow> Inl e | Inr ss \<Rightarrow> Inr (join [CHR 0x0A] ss))"

section \<open>Responses\<close>

text \<open>
  What \<^verbatim>\<open>__make_response\<close> and \<^verbatim>\<open>exception_response\<close> read from outside themselves:
  the configured API version, the two clocks and the request's timing anchors on
  \<^verbatim>\<open>flask.g\<close> (an anchor that was never set raises \<^verbatim>\<open>AttributeError\<close>),
  \<^verbatim>\<open>json.dumps(payload, default=str)\<close> (which may raise), the methods of the matched URL
  rule (\<open>None\<close> when the request matched no rule) and \<^verbatim>\<open>traceback.format_exception\<close>.
  An \<^verbatim>\<open>AttributeError\<close> carries the name of the missing attribute as its message.
\<close>

record env =
  apiversion :: int
  process_time :: real
  perf_counter :: real
  g_t_cpu_start :: "real option"
  g_t_real_start :: "real option"
  json_dumps :: "dict \<Rightarrow> pyexc + string"
  url_rule_methods :: "string list option"
  format_exception :: "pyexc \<Rightarrow> string list"

text \<open>
  A \<^verbatim>\<open>Flask.Response\<close> as the code builds it: the body text, the status, the mimetype
  argument when one is given, and the headers the code sets.
\<close>

record Response =
  response_text :: string
  status :: int
  mimetype :: "string option"
  headers :: "(string \<times> string) list"

text \<open>\<^verbatim>\<open>d[k] = v\<close>: replaces the value of an existing key in place, else appends the item.\<close>

fun dict_set :: "dict \<Rightarrow> string \<Rightarrow> pyval \<Rightarrow> dict" where
  "dict_set [] k v = [(k, v)]"
| "dict_set ((k', v') # kvs) k v =
     (if k' = k then (k, v) # kvs else (k', v') # dict_set kvs k v)"

text \<open>\<^verbatim>\<open>str(e)\<close> of an exception constructed with one message argument.\<close>

fun str_exc :: "pyexc \<Rightarrow> string" where
  "str_exc (ApiExc cls msg details) = msg"
| "str_exc (OtherExc cls msg) = msg"

text \<open>The dictionary literal assigned to \<^verbatim>\<open>payload['api']\<close>, evaluated in source order.\<close>

definition api_element :: "env \<Rightarrow> pyexc + pyval" where
  "api_element e =
     (case g_t_cpu_start e of
        None \<Rightarrow> Inl (AttributeError ''t_cpu_start'')
      | Some t_cpu_start \<Rightarrow>
          (case g_t_real_start e of
             None \<Rightarrow> Inl (AttributeError ''t_real_start'')
           | Some t_real_start \<Rightarrow>
               Inr (PDict [(''version'', PInt (apiversion e)),
                           (''t_cpu'', PFloat (process_time e - t_cpu_start)),
                           (''t_real'', PFloat (perf_counter e - t_real_start))])))"

text \<open>
  The \<^verbatim>\<open>try\<close> block of \<^verbatim>\<open>__make_response\<close>. The two assertions before it hold by
  typing: the code is an integer and the payload a dictionary.
\<close>

definition make_response_try :: "env \<Rightarrow> int \<Rightarrow> dict \<Rightarrow> pyexc + Response" where
  "make_response_try e code payload =
     (case api_element e of
        Inl x \<Rightarrow> Inl x
      | Inr api \<Rightarrow>
          (let payload = dict_set payload ''api'' api
           in case json_dumps e payload of
                Inl x \<Rightarrow> Inl x
              | Inr text \<Rightarrow>
                  (case url_rule_methods e of
                     None \<Rightarrow> Inl (AttributeError ''methods'')
                   | Some methods \<Rightarrow>
                       (let allow = filter (\<lambda>method. method \<notin> set [''HEAD'', ''OPTIONS'']) methods
                        in Inr \<lparr>response_text = text,
                                status = code,
                                mimetype = Some ''application/json'',
                                headers = [(''Allow'', join '', '' allow),
                                           (''Content-Type'', ''application/json'')]\<rparr>))))"

text \<open>\<^verbatim>\<open>__make_response\<close>: the \<^verbatim>\<open>except Exception\<close> handler answers with a bare 500.\<close>

definition make_response :: "env \<Rightarrow> int \<Rightarrow> dict \<Rightarrow> pyexc + Response" where
  "make_response e code payload =
     (case make_response_try e code payload of
        Inr response \<Rightarrow> Inr response
      | Inl x \<Rightarrow>
          Inr \<lparr>response_text = ''api.__make_response() Internal Error: '' @ str_exc x,
               status = 500,
               mimetype = None,
               headers = []\<rparr>)"

subsection \<open>Exceptions to responses\<close>

text \<open>The class attribute \<^verbatim>\<open>ApiException = True\<close>, read with \<^verbatim>\<open>getattr(ex, 'ApiException', None)\<close>.\<close>

fun ApiException_marker :: "pyexc \<Rightarrow> bool" where
  "ApiException_marker (ApiExc cls msg details) = True"
| "ApiException_marker (OtherExc cls msg) = False"

text \<open>\<^verbatim>\<open>ex.code\<close>: set by the constructor of each subclass, not by the base class.\<close>

fun code_attr :: "pyexc \<Rightarrow> pyexc + int" where
  "code_attr (ApiExc ApiException msg details) = Inl (AttributeError ''code'')"
| "code_attr (ApiExc NotFound msg details) = Inr 404"
| "code_attr (ApiExc MethodNotAllowed msg details) = Inr 405"
| "code_attr (ApiExc InvalidArgument msg details) = Inr 406"
| "code_attr (ApiExc Conflict msg details) = Inr 409"
| "code_attr (ApiExc Timeout msg details) = Inr 500"
| "code_attr (ApiExc InternalError msg details) = Inr 500"
| "code_attr (ApiExc NotImplemented msg details) = Inr 501"
| "code_attr (OtherExc cls msg) = Inl (AttributeError ''code'')"

text \<open>\<^verbatim>\<open>ApiException.to_dict\<close>.\<close>

fun to_dict :: "pyexc \<Rightarrow> pyexc + dict" where
  "to_dict (ApiExc cls msg details) =
     (let error_dict = [(''message'', PStr msg)]
      in if truthy details then Inr (dict_set error_dict ''details'' details)
         else Inr error_dict)"
| "to_dict (OtherExc cls msg) = Inl (AttributeError ''to_dict'')"

text \<open>
  The argument of \<^verbatim>\<open>exception_response\<close>: a data value; an exception object of a class
  that keeps the default truth value; or an object of a class that defines its own truth
  test (\<^verbatim>\<open>__bool__\<close> or \<^verbatim>\<open>__len__\<close>), either an exception or, given by the name of its
  type, some other object, together with what the truth test of the object gives: a truth
  value or a raised exception.
\<close>

datatype pyobj =
    Obj pyval
  | Exc pyexc
  | ExcBool pyexc "pyexc + bool"
  | ObjBool string "pyexc + bool"

text \<open>The truth test that \<^verbatim>\<open>not ex\<close> runs on the argument.\<close>

fun truth_test :: "pyobj \<Rightarrow> pyexc + bool" where
  "truth_test (Obj v) = Inr (truthy v)"
| "truth_test (Exc x) = Inr True"
| "truth_test (ExcBool x t) = t"
| "truth_test (ObjBool cls t) = t"

text \<open>The branch of the \<^verbatim>\<open>try\<close> block for \<^verbatim>\<open>isinstance(ex, Exception)\<close>.\<close>

definition exception_branch :: "env \<Rightarrow> pyexc \<Rightarrow> pyexc + Response" where
  "exception_branch e x =
     (if ApiException_marker x
      then (case code_attr x of
              Inl err \<Rightarrow> Inl err
            | Inr response_code \<Rightarrow>
                (case to_dict x of
                   Inl err \<Rightarrow> Inl err
                 | Inr response_payload \<Rightarrow> make_response e response_code response_payload))
      else (case format_exception e x of
              [] \<Rightarrow> Inl (IndexError ''list index out of range'')
            | f # fs \<Rightarrow>
                make_response e 500
                  [(''error'', PStr (last (f # fs))),
                   (''trace'', PStr (concat (butlast fs)))]))"

text \<open>
  The \<^verbatim>\<open>else\<close> branch, for an argument of the named type that is no exception. The type
  object \<^verbatim>\<open>type(ex)\<close> is held as the text that \<^verbatim>\<open>default=str\<close> serialises it to.
\<close>

definition unsupported_branch :: "env \<Rightarrow> string \<Rightarrow> pyexc + Response" where
  "unsupported_branch e cls =
     make_response e 500
       [(''error'', PStr ''Uknown''),
        (''details'', PStr ''api.exception_response() received unsupported argument''),
        (''type'', PStr (''<class '' @ CHR 0x27 # cls @ CHR 0x27 # ''>''))]"

text \<open>The \<^verbatim>\<open>try\<close> block of \<^verbatim>\<open>exception_response\<close>.\<close>

definition exception_response_try :: "env \<Rightarrow> pyobj \<Rightarrow> pyexc + Response" where
  "exception_response_try e ex =
     (case ex of
        Exc x \<Rightarrow> exception_branch e x
      | ExcBool x t \<Rightarrow> exception_branch e x
      | Obj v \<Rightarrow> unsupported_branch e (type_name v)
      | ObjBool cls t \<Rightarrow> unsupported_branch e cls)"

text \<open>
  \<^verbatim>\<open>exception_response\<close>. The test \<^verbatim>\<open>if not ex\<close> stands before the \<^verbatim>\<open>try\<close>: an
  exception that the truth test raises leaves the function.
\<close>

definition exception_response :: "env \<Rightarrow> pyobj \<Rightarrow> pyexc + Response" where
  "exception_response e ex =
     (case truth_test ex of
        Inl err \<Rightarrow> Inl err
      | Inr b \<Rightarrow>
          if \<not> b
          then make_response e 500
                 [(''error'', PStr ''Unknown''),
                  (''details'', PStr ''api.exception_response() received: None!'')]
          else (case exception_response_try e ex of
                  Inr response \<Rightarrow> Inr response
                | Inl err \<Rightarrow>
                    make_response e 500
                      [(''error'', PStr ''Internal Error''),
                       (''details'', PStr ''api.exception_response() internal failure!'')]))"

section \<open>CSV streaming\<close>

text \<open>
  A queried cursor: its \<^verbatim>\<open>description\<close> (one tuple per result column, the name first;
  \<open>None\<close> when the statement produced no result set) and the rows it will yield.
\<close>

record cursor =
  description :: "(string \<times> pyval list) list option"
  fetch_rows :: "pyval list list"

text \<open>
  The generator \<^verbatim>\<open>generate\<close> inside \<^verbatim>\<open>stream_result_as_csv\<close>, with the
  \<^verbatim>\<open>StringIO\<close> buffer \<open>data\<close> passed along: \<^verbatim>\<open>writer.writerow\<close> appends the text of
  one row (\<open>writerow\<close>, the formatting of \<^verbatim>\<open>csv.writer\<close>), the buffer is yielded, and
  \<^verbatim>\<open>seek(0); truncate(0)\<close> empties it. The result is the list of yielded chunks.
\<close>

fun generate_rows :: "(pyval list \<Rightarrow> string) \<Rightarrow> string \<Rightarrow> pyval list list \<Rightarrow> string list" where
  "generate_rows writerow data [] = []"
| "generate_rows writerow data (row # rows) =
     (let data = data @ writerow row;
          chunk = data;
          data = []
      in chunk # generate_rows writerow data rows)"

definition generate :: "(pyval list \<Rightarrow> string) \<Rightarrow> cursor \<Rightarrow> pyexc + string list" where
  "generate writerow c =
     (case description c of
        None \<Rightarrow> Inl (TypeError (CHR 0x27 # ''NoneType'' @ CHR 0x27 # '' object is not iterable''))
      | Some keys \<Rightarrow>
          (let data = [];
               data = data @ writerow (map (\<lambda>key. PStr (fst key)) keys);
               chunk = data;
               data = []
           in Inr (chunk # generate_rows writerow data (fetch_rows c))))"

section \<open>Schema creation: the hitcount table\<close>

text \<open>Decimal digits of a natural number, and \<^verbatim>\<open>"{:0w}".format(n)\<close> for \<open>n \<ge> 0\<close>.\<close>

function str_nat :: "nat \<Rightarrow> string" where
  "str_nat n =
     (if n < 10 then [''0123456789'' ! n]
      else str_nat (n div 10) @ [''0123456789'' ! (n mod 10)])"
  by pat_completeness auto
termination
  by (relation "measure id") auto

definition format_0 :: "nat \<Rightarrow> nat \<Rightarrow> string" where
  "format_0 w n = replicate (w - length (str_nat n)) CHR ''0'' @ str_nat n"

text \<open>The two groups of generated column definitions, in the order of the loops.\<close>

definition sector_cols :: "string list" where
  "sector_cols =
     concat (map (\<lambda>sector.
        map (\<lambda>proton. ''s'' @ format_0 2 sector @ ''p'' @ format_0 2 proton @ '' INTEGER NOT NULL, '')
            [1..<13]
        @ map (\<lambda>electron. ''s'' @ format_0 2 sector @ ''e'' @ format_0 2 electron @ '' INTEGER NOT NULL, '')
            [1..<9])
       [0..<37])"

definition telescope_cols :: "string list" where
  "telescope_cols =
     concat (map (\<lambda>telescope.
        map (\<lambda>ac. telescope @ ''ac'' @ str_nat ac @ '' INTEGER NOT NULL, '') [1..<3]
        @ map (\<lambda>d1. telescope @ ''d1p'' @ format_0 1 d1 @ '' INTEGER NOT NULL, '') [1..<5]
        @ [telescope @ ''d2p1 INTEGER NOT NULL, '']
        @ map (\<lambda>trash. telescope @ ''trash'' @ format_0 1 trash @ '' INTEGER NOT NULL, '') [1..<3])
       [''st'', ''rt''])"

definition cols :: "string list" where
  "cols = sector_cols @ telescope_cols"

text \<open>The fixed head of the statement, with the two key columns, and its fixed tail.\<close>

definition hitcount_head :: string where
  "hitcount_head =
     [CHR 0x0A] @ ''    CREATE TABLE hitcount'' @
     [CHR 0x0A] @ ''    ('' @
     [CHR 0x0A] @ ''        timestamp       INTEGER NOT NULL DEFAULT CURRENT_TIME PRIMARY KEY,'' @
     [CHR 0x0A] @ ''        session_id      INTEGER NOT NULL,'' @
     [CHR 0x0A] @ ''    ''"

definition hitcount_tail :: string where
  "hitcount_tail = '' FOREIGN KEY (session_id) REFERENCES testing_session (id) )''"

definition hitcount_sql :: string where
  "hitcount_sql = hitcount_head @ concat cols @ hitcount_tail"

section \<open>Properties of the column selection and the SQL fragments\<close>

lemma include_loop_filter:
  "include_loop self inc exc ipk =
     filter (\<lambda>col. (primarykey col \<and> ipk) \<or> (name col \<in> set inc \<and> name col \<notin> set exc)) self"
  by (induction self) auto

lemma flist_loop_include_loop: "flist_loop self inc exc ipk = include_loop self inc exc ipk"
  by (induction self) auto

lemma slist_loop_map: "slist_loop flist = map select_typecast flist"
  by (induction flist) (auto simp: select_typecast_def)

lemma find_distinct_name:
  "distinct (map name self) \<Longrightarrow> col \<in> set self \<Longrightarrow> find (\<lambda>c. name c = name col) self = Some col"
  by (induction self) (auto simp: rev_image_eqI)

lemma find_absent: "column \<notin> set (columns self) \<Longrightarrow> find (\<lambda>c. name c = column) self = None"
  by (auto simp: find_None_iff columns_def)

text \<open>
  C1. With \<open>include_primarykeys\<close> set, every primary-key descriptor of the table is in the
  result of \<open>get_column_objects\<close>, and its name in the result of \<open>get_column_names\<close>,
  whatever \<open>include\<close> and \<open>exclude\<close> hold. A primary-key descriptor is missing from the
  result only when \<open>include_primarykeys\<close> is false and its name is in \<open>exclude\<close> or is
  left out of a non-empty \<open>include\<close>.
\<close>

theorem primary_keys_kept:
  assumes "col \<in> set self" and "primarykey col"
  shows "(include_primarykeys \<longrightarrow>
            col \<in> set (get_column_objects self include exclude include_primarykeys)
          \<and> name col \<in> set (get_column_names self include exclude include_primarykeys))
       \<and> (col \<notin> set (get_column_objects self include exclude include_primarykeys) \<longrightarrow>
            \<not> include_primarykeys
          \<and> (name col \<in> set exclude \<or> (include \<noteq> [] \<and> name col \<notin> set include)))"
proof -
  have pk: "name col \<in> set (primarykeys self)"
    using assms by (auto simp: primarykeys_def)
  show ?thesis
    using assms pk
    by (auto simp: get_column_objects_def get_column_names_def include_loop_filter Let_def)
qed

text \<open>
  The theorem at a table with the key \<open>id\<close> and a column \<open>label\<close>: the key stays when it
  is excluded and not included while the flag is set, and goes when the flag is cleared and
  the key is left out of \<open>include\<close>.
\<close>

theorem primary_keys_kept_witness:
  "\<lparr>name = ''id'', datatype_tag = ''INTEGER'', nullable = False, default_val = PNone, primarykey = True\<rparr>
     \<in> set [\<lparr>name = ''id'', datatype_tag = ''INTEGER'', nullable = False, default_val = PNone, primarykey = True\<rparr>,
             \<lparr>name = ''label'', datatype_tag = ''TEXT'', nullable = True, default_val = PNone, primarykey = False\<rparr>]
   \<and> primarykey \<lparr>name = ''id'', datatype_tag = ''INTEGER'', nullable = False, default_val = PNone, primarykey = True\<rparr>
   \<and> get_column_names
         [\<lparr>name = ''id'', datatype_tag = ''INTEGER'', nullable = False, default_val = PNone, primarykey = True\<rparr>,
          \<lparr>name = ''label'', datatype_tag = ''TEXT'', nullable = True, default_val = PNone, primarykey = False\<rparr>]
         [''label''] [''id''] True = [''id'', ''label'']
   \<and> get_column_names
         [\<lparr>name = ''id'', datatype_tag = ''INTEGER'', nullable = False, default_val = PNone, primarykey = True\<rparr>,
          \<lparr>name = ''label'', datatype_tag = ''TEXT'', nullable = True, default_val = PNone, primarykey = False\<rparr>]
         [''label''] [] False = [''label'']
   \<and> ''id'' \<notin> set [''label'']"
  using
    primary_keys_kept [of
      "\<lparr>name = ''id'', datatype_tag = ''INTEGER'', nullable = False, default_val = PNone, primarykey = True\<rparr>"
      "[\<lparr>name = ''id'', datatype_tag = ''INTEGER'', nullable = False, default_val = PNone, primarykey = True\<rparr>,
        \<lparr>name = ''label'', datatype_tag = ''TEXT'', nullable = True, default_val = PNone, primarykey = False\<rparr>]"
      True "[''label'']" "[''id'']"]
    primary_keys_kept [of
      "\<lparr>name = ''id'', datatype_tag = ''INTEGER'', nullable = False, default_val = PNone, primarykey = True\<rparr>"
      "[\<lparr>name = ''id'', datatype_tag = ''INTEGER'', nullable = False, default_val = PNone, primarykey = True\<rparr>,
        \<lparr>name = ''label'', datatype_tag = ''TEXT'', nullable = True, default_val = PNone, primarykey = False\<rparr>]"
      False "[''label'']" "[]"]
  by (simp add: get_column_names_def get_column_objects_def primarykeys_def)

text \<open>
  C2, as the claim states it, fails: a name that no descriptor carries makes
  \<open>where_condition\<close> raise the built-in \<^verbatim>\<open>ValueError\<close>, which does not carry the marker
  of the API exception classes and so is no \<^verbatim>\<open>InvalidArgument\<close>.
\<close>

theorem where_condition_not_InvalidArgument:
  "where_condition
     [\<lparr>name = ''id'', datatype_tag = ''INTEGER'', nullable = False, default_val = PNone, primarykey = True\<rparr>]
     ''nosuch''
   = Inl (ValueError ''Non-existent column specified'')
   \<and> \<not> ApiException_marker (ValueError ''Non-existent column specified'')
   \<and> code_attr (ValueError ''Non-existent column specified'') \<noteq> Inr 406"
  by (simp add: where_condition_def)

text \<open>
  C2, amended. For a name that no descriptor of the schema carries, \<open>where_condition\<close>
  raises \<^verbatim>\<open>ValueError("Non-existent column specified")\<close>; it returns no fragment.
\<close>

theorem where_condition_unknown:
  assumes "column \<notin> set (columns self)"
  shows "where_condition self column = Inl (ValueError ''Non-existent column specified'')"
  using find_absent [OF assms] by (simp add: where_condition_def)

theorem where_condition_unknown_witness:
  "''nosuch'' \<notin> set (columns
      [\<lparr>name = ''id'', datatype_tag = ''INTEGER'', nullable = False, default_val = PNone, primarykey = True\<rparr>])
   \<and> where_condition
        [\<lparr>name = ''id'', datatype_tag = ''INTEGER'', nullable = False, default_val = PNone, primarykey = True\<rparr>]
        ''nosuch''
      = Inl (ValueError ''Non-existent column specified'')"
proof -
  have h: "''nosuch'' \<notin> set (columns
      [\<lparr>name = ''id'', datatype_tag = ''INTEGER'', nullable = False, default_val = PNone, primarykey = True\<rparr>])"
    by (simp add: columns_def)
  show ?thesis
    using h where_condition_unknown [OF h] by simp
qed

text \<open>
  C3. In a schema whose column names are distinct (the names of one table are), a
  \<^verbatim>\<open>TIMESTAMP\<close> descriptor gets the integer cast of \<^verbatim>\<open>strftime('%s', name)\<close>, aliased to
  the name in the SELECT fragment and without the alias in the WHERE fragment; a
  \<^verbatim>\<open>DATETIME\<close> descriptor gets \<^verbatim>\<open>datetime(name)\<close>, likewise; any other type gets the
  bare name in both.
\<close>

theorem fragments_by_type:
  assumes "col \<in> set self" and "distinct (map name self)"
  shows "(datatype_tag col = ''TIMESTAMP'' \<longrightarrow>
            select_typecast col = ''CAST(strftime('%s', '' @ name col @ '') as integer) AS '' @ name col
          \<and> where_condition self (name col) = Inr (''CAST(strftime('%s', '' @ name col @ '') as integer)''))
       \<and> (datatype_tag col = ''DATETIME'' \<longrightarrow>
            select_typecast col = ''datetime('' @ name col @ '') AS '' @ name col
          \<and> where_condition self (name col) = Inr (''datetime('' @ name col @ '')''))
       \<and> (datatype_tag col \<noteq> ''TIMESTAMP'' \<and> datatype_tag col \<noteq> ''DATETIME'' \<longrightarrow>
            select_typecast col = name col
          \<and> where_condition self (name col) = Inr (name col))"
  using find_distinct_name [OF assms(2) assms(1)]
  by (simp add: where_condition_def select_typecast_def)

theorem fragments_by_type_witness:
  "distinct (map name
      [\<lparr>name = ''t'', datatype_tag = ''TIMESTAMP'', nullable = False, default_val = PNone, primarykey = True\<rparr>,
       \<lparr>name = ''d'', datatype_tag = ''DATETIME'', nullable = True, default_val = PNone, primarykey = False\<rparr>,
       \<lparr>name = ''x'', datatype_tag = ''TEXT'', nullable = True, default_val = PNone, primarykey = False\<rparr>])
   \<and> select_typecast \<lparr>name = ''t'', datatype_tag = ''TIMESTAMP'', nullable = False, default_val = PNone, primarykey = True\<rparr>
       = ''CAST(strftime('%s', t) as integer) AS t''
   \<and> where_condition
        [\<lparr>name = ''t'', datatype_tag = ''TIMESTAMP'', nullable = False, default_val = PNone, primarykey = True\<rparr>,
         \<lparr>name = ''d'', datatype_tag = ''DATETIME'', nullable = True, default_val = PNone, primarykey = False\<rparr>,
         \<lparr>name = ''x'', datatype_tag = ''TEXT'', nullable = True, default_val = PNone, primarykey = False\<rparr>]
        ''t'' = Inr ''CAST(strftime('%s', t) as integer)''
   \<and> select_typecast \<lparr>name = ''d'', datatype_tag = ''DATETIME'', nullable = True, default_val = PNone, primarykey = False\<rparr>
       = ''datetime(d) AS d''
   \<and> where_condition
        [\<lparr>name = ''t'', datatype_tag = ''TIMESTAMP'', nullable = False, default_val = PNone, primarykey = True\<rparr>,
         \<lparr>name = ''d'', datatype_tag = ''DATETIME'', nullable = True, default_val = PNone, primarykey = False\<rparr>,
         \<lparr>name = ''x'', datatype_tag = ''TEXT'', nullable = True, default_val = PNone, primarykey = False\<rparr>]
        ''d'' = Inr ''datetime(d)''
   \<and> select_typecast \<lparr>name = ''x'', datatype_tag = ''TEXT'', nullable = True, default_val = PNone, primarykey = False\<rparr>
       = ''x''
   \<and> where_condition
        [\<lparr>name = ''t'', datatype_tag = ''TIMESTAMP'', nullable = False, default_val = PNone, primarykey = True\<rparr>,
         \<lparr>name = ''d'', datatype_tag = ''DATETIME'', nullable = True, default_val = PNone, primarykey = False\<rparr>,
         \<lparr>name = ''x'', datatype_tag = ''TEXT'', nullable = True, default_val = PNone, primarykey = False\<rparr>]
        ''x'' = Inr ''x''"
  using
    fragments_by_type [of
      "\<lparr>name = ''t'', datatype_tag = ''TIMESTAMP'', nullable = False, default_val = PNone, primarykey = True\<rparr>"
      "[\<lparr>name = ''t'', datatype_tag = ''TIMESTAMP'', nullable = False, default_val = PNone, primarykey = True\<rparr>,
        \<lparr>name = ''d'', datatype_tag = ''DATETIME'', nullable = True, default_val = PNone, primarykey = False\<rparr>,
        \<lparr>name = ''x'', datatype_tag = ''TEXT'', nullable = True, default_val = PNone, primarykey = False\<rparr>]"]
    fragments_by_type [of
      "\<lparr>name = ''d'', datatype_tag = ''DATETIME'', nullable = True, default_val = PNone, primarykey = False\<rparr>"
      "[\<lparr>name = ''t'', datatype_tag = ''TIMESTAMP'', nullable = False, default_val = PNone, primarykey = True\<rparr>,
        \<lparr>name = ''d'', datatype_tag = ''DATETIME'', nullable = True, default_val = PNone, primarykey = False\<rparr>,
        \<lparr>name = ''x'', datatype_tag = ''TEXT'', nullable = True, default_val = PNone, primarykey = False\<rparr>]"]
    fragments_by_type [of
      "\<lparr>name = ''x'', datatype_tag = ''TEXT'', nullable = True, default_val = PNone, primarykey = False\<rparr>"
      "[\<lparr>name = ''t'', datatype_tag = ''TIMESTAMP'', nullable = False, default_val = PNone, primarykey = True\<rparr>,
        \<lparr>name = ''d'', datatype_tag = ''DATETIME'', nullable = True, default_val = PNone, primarykey = False\<rparr>,
        \<lparr>name = ''x'', datatype_tag = ''TEXT'', nullable = True, default_val = PNone, primarykey = False\<rparr>]"]
  by simp

text \<open>
  C4. \<open>select_columns\<close>, which selects and formats inline, returns the \<^verbatim>\<open>", "\<close>-joined
  \<open>select_typecast\<close> of the descriptors that \<open>get_column_objects\<close> returns for the same
  arguments, in the same order.
\<close>

theorem select_columns_composed:
  "select_columns self include exclude include_primarykeys =
     join '', '' (map select_typecast (get_column_objects self include exclude include_primarykeys))"
  by (simp add: select_columns_def get_column_objects_def Let_def flist_loop_include_loop slist_loop_map)


section \<open>Properties of the responses\<close>

lemma map_of_dict_set: "map_of (dict_set d k v) = (map_of d)(k \<mapsto> v)"
  by (induction d k v rule: dict_set.induct) (auto simp: fun_eq_iff)

lemma make_response_returns: "\<exists>r. make_response e code payload = Inr r"
  by (simp add: make_response_def split: sum.splits)

lemma make_response_try_Inr:
  "make_response_try e code payload = Inr r \<Longrightarrow> make_response e code payload = Inr r"
  by (simp add: make_response_def)

lemma make_response_try_status:
  "make_response_try e code payload = Inr r \<Longrightarrow> status r = code"
  by (auto simp: make_response_try_def Let_def split: sum.splits option.splits)




lemma exception_response_api:
  assumes "code_attr (ApiExc cls msg details) = Inr code"
  shows "exception_response e (Exc (ApiExc cls msg details)) =
           make_response e code
             (if truthy details then [(''message'', PStr msg), (''details'', details)]
              else [(''message'', PStr msg)])"
proof -
  obtain r where r: "make_response e code
             (if truthy details then [(''message'', PStr msg), (''details'', details)]
              else [(''message'', PStr msg)]) = Inr r"
    using make_response_returns by blast
  then show ?thesis
    using assms
    by (auto simp: exception_response_def exception_response_try_def exception_branch_def Let_def)
qed

text \<open>
  C5. For an instance of each of the seven error classes, \<open>exception_response\<close> hands the
  class's fixed status and the dictionary of \<open>to_dict\<close> to \<open>make_response\<close>: 404, 405,
  406, 409, 500, 500 and 501. The dictionary holds the message under \<^verbatim>\<open>message\<close>, and a
  \<^verbatim>\<open>details\<close> entry exactly when the error's details are truthy, so never when there
  are none. When the response is built without falling back, its status is that code.
\<close>

theorem api_exception_response:
  "exception_response e (Exc (ApiExc NotFound msg details)) =
     make_response e 404 (if truthy details then [(''message'', PStr msg), (''details'', details)]
                          else [(''message'', PStr msg)])
   \<and> exception_response e (Exc (ApiExc MethodNotAllowed msg details)) =
     make_response e 405 (if truthy details then [(''message'', PStr msg), (''details'', details)]
                          else [(''message'', PStr msg)])
   \<and> exception_response e (Exc (ApiExc InvalidArgument msg details)) =
     make_response e 406 (if truthy details then [(''message'', PStr msg), (''details'', details)]
                          else [(''message'', PStr msg)])
   \<and> exception_response e (Exc (ApiExc Conflict msg details)) =
     make_response e 409 (if truthy details then [(''message'', PStr msg), (''details'', details)]
                          else [(''message'', PStr msg)])
   \<and> exception_response e (Exc (ApiExc Timeout msg details)) =
     make_response e 500 (if truthy details then [(''message'', PStr msg), (''details'', details)]
                          else [(''message'', PStr msg)])
   \<and> exception_response e (Exc (ApiExc InternalError msg details)) =
     make_response e 500 (if truthy details then [(''message'', PStr msg), (''details'', details)]
                          else [(''message'', PStr msg)])
   \<and> exception_response e (Exc (ApiExc NotImplemented msg details)) =
     make_response e 501 (if truthy details then [(''message'', PStr msg), (''details'', details)]
                          else [(''message'', PStr msg)])
   \<and> to_dict (ApiExc cls msg details) =
       Inr (if truthy details then [(''message'', PStr msg), (''details'', details)]
            else [(''message'', PStr msg)])
   \<and> map_of (if truthy details then [(''message'', PStr msg), (''details'', details)]
              else [(''message'', PStr msg)]) ''message'' = Some (PStr msg)
   \<and> map_of (if truthy details then [(''message'', PStr msg), (''details'', details)]
              else [(''message'', PStr msg)]) ''details'' = (if truthy details then Some details else None)
   \<and> to_dict (ApiExc cls msg PNone) = Inr [(''message'', PStr msg)]
   \<and> (make_response_try e code payload = Inr r \<longrightarrow>
        make_response e code payload = Inr r \<and> status r = code)"
proof -
  have 1: "to_dict (ApiExc cls msg details) =
       Inr (if truthy details then [(''message'', PStr msg), (''details'', details)]
            else [(''message'', PStr msg)])"
    by simp
  have 2: "make_response_try e code payload = Inr r \<longrightarrow>
        make_response e code payload = Inr r \<and> status r = code"
    using make_response_try_Inr make_response_try_status by blast
  show ?thesis
    using 1 2 by (simp add: exception_response_api)
qed

theorem api_exception_response_witness:
  "make_response_try
     \<lparr>apiversion = 1, process_time = 5, perf_counter = 9, g_t_cpu_start = Some 3,
      g_t_real_start = Some 4, json_dumps = (\<lambda>d. Inr (concat (map fst d))),
      url_rule_methods = Some [''GET'', ''HEAD''], format_exception = (\<lambda>x. [str_exc x])\<rparr>
     409 [(''message'', PStr ''duplicate'')]
   = Inr \<lparr>response_text = ''messageapi'', status = 409, mimetype = Some ''application/json'',
          headers = [(''Allow'', ''GET''), (''Content-Type'', ''application/json'')]\<rparr>
   \<and> exception_response
     \<lparr>apiversion = 1, process_time = 5, perf_counter = 9, g_t_cpu_start = Some 3,
      g_t_real_start = Some 4, json_dumps = (\<lambda>d. Inr (concat (map fst d))),
      url_rule_methods = Some [''GET'', ''HEAD''], format_exception = (\<lambda>x. [str_exc x])\<rparr>
     (Exc (ApiExc Conflict ''duplicate'' PNone))
   = Inr \<lparr>response_text = ''messageapi'', status = 409, mimetype = Some ''application/json'',
          headers = [(''Allow'', ''GET''), (''Content-Type'', ''application/json'')]\<rparr>"
proof -
  have h: "make_response_try
     \<lparr>apiversion = 1, process_time = 5, perf_counter = 9, g_t_cpu_start = Some 3,
      g_t_real_start = Some 4, json_dumps = (\<lambda>d. Inr (concat (map fst d))),
      url_rule_methods = Some [''GET'', ''HEAD''], format_exception = (\<lambda>x. [str_exc x])\<rparr>
     409 [(''message'', PStr ''duplicate'')]
   = Inr \<lparr>response_text = ''messageapi'', status = 409, mimetype = Some ''application/json'',
          headers = [(''Allow'', ''GET''), (''Content-Type'', ''application/json'')]\<rparr>"
    by (simp add: make_response_try_def api_element_def)
  show ?thesis
    using h api_exception_response [of
      "\<lparr>apiversion = 1, process_time = 5, perf_counter = 9, g_t_cpu_start = Some 3,
        g_t_real_start = Some 4, json_dumps = (\<lambda>d. Inr (concat (map fst d))),
        url_rule_methods = Some [''GET'', ''HEAD''], format_exception = (\<lambda>x. [str_exc x])\<rparr>"
      "''duplicate''" PNone NotFound 409 "[(''message'', PStr ''duplicate'')]"
      "\<lparr>response_text = ''messageapi'', status = 409, mimetype = Some ''application/json'',
          headers = [(''Allow'', ''GET''), (''Content-Type'', ''application/json'')]\<rparr>"]
    by simp
qed




text \<open>
  C7. For every status code and payload dictionary, \<open>make_response\<close> returns a response
  and raises nothing. When its \<^verbatim>\<open>try\<close> block succeeds, the response has the given
  status, and its text is the serialisation of the payload with the entry \<^verbatim>\<open>api\<close> set to
  the dictionary of \<^verbatim>\<open>version\<close> (the configured API version), \<^verbatim>\<open>t_cpu\<close> and
  \<^verbatim>\<open>t_real\<close> (the clock readings less the request's anchors), the other entries
  unchanged. When anything in the block fails, the serialisation included, the result is
  the minimal response with status 500.
\<close>

theorem make_response_never_raises:
  "(\<exists>r. make_response e code payload = Inr r)
   \<and> (make_response_try e code payload = Inr r \<longrightarrow>
        make_response e code payload = Inr r
      \<and> status r = code
      \<and> (\<exists>t_cpu_start t_real_start.
            g_t_cpu_start e = Some t_cpu_start
          \<and> g_t_real_start e = Some t_real_start
          \<and> json_dumps e
               (dict_set payload ''api''
                  (PDict [(''version'', PInt (apiversion e)),
                          (''t_cpu'', PFloat (process_time e - t_cpu_start)),
                          (''t_real'', PFloat (perf_counter e - t_real_start))]))
             = Inr (response_text r)))
   \<and> map_of (dict_set payload ''api'' api) = (map_of payload)(''api'' \<mapsto> api)
   \<and> (make_response_try e code payload = Inl x \<longrightarrow>
        make_response e code payload =
          Inr \<lparr>response_text = ''api.__make_response() Internal Error: '' @ str_exc x,
               status = 500, mimetype = None, headers = []\<rparr>)"
proof -
  have ok: "make_response e code payload = Inr r
      \<and> status r = code
      \<and> (\<exists>t_cpu_start t_real_start.
            g_t_cpu_start e = Some t_cpu_start
          \<and> g_t_real_start e = Some t_real_start
          \<and> json_dumps e
               (dict_set payload ''api''
                  (PDict [(''version'', PInt (apiversion e)),
                          (''t_cpu'', PFloat (process_time e - t_cpu_start)),
                          (''t_real'', PFloat (perf_counter e - t_real_start))]))
             = Inr (response_text r))"
    if tb: "make_response_try e code payload = Inr r"
  proof -
    have "\<exists>t_cpu_start t_real_start.
            g_t_cpu_start e = Some t_cpu_start
          \<and> g_t_real_start e = Some t_real_start
          \<and> json_dumps e
               (dict_set payload ''api''
                  (PDict [(''version'', PInt (apiversion e)),
                          (''t_cpu'', PFloat (process_time e - t_cpu_start)),
                          (''t_real'', PFloat (perf_counter e - t_real_start))]))
             = Inr (response_text r)"
      using tb
      by (auto simp: make_response_try_def api_element_def Let_def split: sum.splits option.splits)
    then show ?thesis
      using make_response_try_Inr [OF tb] make_response_try_status [OF tb] by blast
  qed
  have bad: "make_response e code payload =
          Inr \<lparr>response_text = ''api.__make_response() Internal Error: '' @ str_exc x,
               status = 500, mimetype = None, headers = []\<rparr>"
    if "make_response_try e code payload = Inl x"
    using that by (simp add: make_response_def)
  show ?thesis
    using make_response_returns [of e code payload] ok bad map_of_dict_set [of payload "''api''" api]
    by blast
qed

text \<open>
  The theorem at a request where the response is built (the serialiser used here writes
  the keys of the payload, so the injected \<^verbatim>\<open>api\<close> entry shows in the text), and at one
  where the serialiser raises.
\<close>

theorem make_response_never_raises_witness:
  "make_response
     \<lparr>apiversion = 3, process_time = 5, perf_counter = 9, g_t_cpu_start = Some 3,
      g_t_real_start = Some 4, json_dumps = (\<lambda>d. Inr (concat (map fst d))),
      url_rule_methods = Some [''GET'', ''OPTIONS'', ''POST''],
      format_exception = (\<lambda>x. [str_exc x])\<rparr>
     200 [(''id'', PInt 7)]
   = Inr \<lparr>response_text = ''idapi'', status = 200, mimetype = Some ''application/json'',
          headers = [(''Allow'', ''GET, POST''), (''Content-Type'', ''application/json'')]\<rparr>
   \<and> make_response_try
     \<lparr>apiversion = 3, process_time = 5, perf_counter = 9, g_t_cpu_start = Some 3,
      g_t_real_start = Some 4, json_dumps = (\<lambda>d. Inl (TypeError ''keys must be str'')),
      url_rule_methods = Some [''GET'', ''OPTIONS'', ''POST''],
      format_exception = (\<lambda>x. [str_exc x])\<rparr>
     200 [(''id'', PInt 7)]
   = Inl (TypeError ''keys must be str'')
   \<and> make_response
     \<lparr>apiversion = 3, process_time = 5, perf_counter = 9, g_t_cpu_start = Some 3,
      g_t_real_start = Some 4, json_dumps = (\<lambda>d. Inl (TypeError ''keys must be str'')),
      url_rule_methods = Some [''GET'', ''OPTIONS'', ''POST''],
      format_exception = (\<lambda>x. [str_exc x])\<rparr>
     200 [(''id'', PInt 7)]
   = Inr \<lparr>response_text = ''api.__make_response() Internal Error: keys must be str'',
          status = 500, mimetype = None, headers = []\<rparr>"
proof -
  have h1: "make_response_try
     \<lparr>apiversion = 3, process_time = 5, perf_counter = 9, g_t_cpu_start = Some 3,
      g_t_real_start = Some 4, json_dumps = (\<lambda>d. Inr (concat (map fst d))),
      url_rule_methods = Some [''GET'', ''OPTIONS'', ''POST''],
      format_exception = (\<lambda>x. [str_exc x])\<rparr>
     200 [(''id'', PInt 7)]
   = Inr \<lparr>response_text = ''idapi'', status = 200, mimetype = Some ''application/json'',
          headers = [(''Allow'', ''GET, POST''), (''Content-Type'', ''application/json'')]\<rparr>"
    by (simp add: make_response_try_def api_element_def)
  have h2: "make_response_try
     \<lparr>apiversion = 3, process_time = 5, perf_counter = 9, g_t_cpu_start = Some 3,
      g_t_real_start = Some 4, json_dumps = (\<lambda>d. Inl (TypeError ''keys must be str'')),
      url_rule_methods = Some [''GET'', ''OPTIONS'', ''POST''],
      format_exception = (\<lambda>x. [str_exc x])\<rparr>
     200 [(''id'', PInt 7)]
   = Inl (TypeError ''keys must be str'')"
    by (simp add: make_response_try_def api_element_def)
  show ?thesis
    using h2
      make_response_never_raises [THEN conjunct2, THEN conjunct1, rule_format, OF h1]
      make_response_never_raises [THEN conjunct2, THEN conjunct2, THEN conjunct2, rule_format, OF h2]
    by simp
qed

section \<open>Properties of the CSV generator\<close>

lemma generate_rows_map: "generate_rows writerow [] rows = map writerow rows"
  by (induction rows) (simp_all add: Let_def)

text \<open>
  C8. For a cursor with a description, the generator yields the header row written from
  the column names first, then one chunk per data row, each the text of that row alone: one
  header and as many data chunks as there are rows. With no rows, the output is the header
  row only.
\<close>

theorem generate_header_then_rows:
  assumes "description c = Some keys"
  shows "generate writerow c =
           Inr (writerow (map (\<lambda>key. PStr (fst key)) keys) # map writerow (fetch_rows c))
       \<and> (\<exists>chunks. generate writerow c = Inr chunks
            \<and> hd chunks = writerow (map (\<lambda>key. PStr (fst key)) keys)
            \<and> length (tl chunks) = length (fetch_rows c)
            \<and> length chunks = 1 + length (fetch_rows c))
       \<and> (fetch_rows c = [] \<longrightarrow>
            generate writerow c = Inr [writerow (map (\<lambda>key. PStr (fst key)) keys)])"
  using assms by (simp add: generate_def Let_def generate_rows_map)

theorem generate_header_then_rows_witness:
  "description \<lparr>description = Some [(''id'', []), (''label'', [])],
                 fetch_rows = [[PStr ''1'', PStr ''a''], [PStr ''2'', PStr ''b'']]\<rparr>
     = Some [(''id'', []), (''label'', [])]
   \<and> generate (\<lambda>row. join '','' (map (\<lambda>v. case v of PStr s \<Rightarrow> s | _ \<Rightarrow> []) row) @ [CHR 0x0D, CHR 0x0A])
        \<lparr>description = Some [(''id'', []), (''label'', [])],
         fetch_rows = [[PStr ''1'', PStr ''a''], [PStr ''2'', PStr ''b'']]\<rparr>
     = Inr [''id,label'' @ [CHR 0x0D, CHR 0x0A], ''1,a'' @ [CHR 0x0D, CHR 0x0A],
            ''2,b'' @ [CHR 0x0D, CHR 0x0A]]
   \<and> fetch_rows \<lparr>description = Some [(''id'', []), (''label'', [])], fetch_rows = []\<rparr> = []
   \<and> generate (\<lambda>row. join '','' (map (\<lambda>v. case v of PStr s \<Rightarrow> s | _ \<Rightarrow> []) row) @ [CHR 0x0D, CHR 0x0A])
        \<lparr>description = Some [(''id'', []), (''label'', [])], fetch_rows = []\<rparr>
     = Inr [''id,label'' @ [CHR 0x0D, CHR 0x0A]]"
  using
    generate_header_then_rows [of
      "\<lparr>description = Some [(''id'', []), (''label'', [])],
        fetch_rows = [[PStr ''1'', PStr ''a''], [PStr ''2'', PStr ''b'']]\<rparr>"
      "[(''id'', []), (''label'', [])]" "\<lambda>row. join '','' (map (\<lambda>v. case v of PStr s \<Rightarrow> s | _ \<Rightarrow> []) row) @ [CHR 0x0D, CHR 0x0A]"]
    generate_header_then_rows [of
      "\<lparr>description = Some [(''id'', []), (''label'', [])], fetch_rows = []\<rparr>"
      "[(''id'', []), (''label'', [])]" "\<lambda>row. join '','' (map (\<lambda>v. case v of PStr s \<Rightarrow> s | _ \<Rightarrow> []) row) @ [CHR 0x0D, CHR 0x0A]"]
  by simp

section \<open>Properties of the string conversion\<close>

lemma DotDict_getattr_getattr: "DotDict_getattr c ''getattr'' = PNone"
  by (simp add: DotDict_getattr_def DotDict_items_def)

lemma str_column_raises:
  "str_column c = Inl (TypeError (CHR 0x27 # ''NoneType'' @ CHR 0x27 # '' object is not callable''))"
  by (simp add: str_column_def DotDict_str_def py_call_def DotDict_getattr_getattr)

text \<open>
  C10. On every column descriptor, \<^verbatim>\<open>str()\<close> raises \<^verbatim>\<open>TypeError\<close>: the attribute
  \<^verbatim>\<open>getattr\<close> falls back to the key lookup, which gives \<^verbatim>\<open>None\<close>, and \<^verbatim>\<open>None\<close> is not
  callable. So \<^verbatim>\<open>str()\<close> of a \<^verbatim>\<open>DataObject\<close> with at least one descriptor raises the same
  error, as does that of one constructed over a table with at least one column.
\<close>

theorem str_of_descriptor_raises:
  "DotDict_getattr c ''getattr'' = PNone
   \<and> py_call PNone args = Inl (TypeError (CHR 0x27 # ''NoneType'' @ CHR 0x27 # '' object is not callable''))
   \<and> str_column c = Inl (TypeError (CHR 0x27 # ''NoneType'' @ CHR 0x27 # '' object is not callable''))
   \<and> DataObject_str (c # cs)
       = Inl (TypeError (CHR 0x27 # ''NoneType'' @ CHR 0x27 # '' object is not callable''))
   \<and> DataObject_str (DataObject_init (row # rows) [])
       = Inl (TypeError (CHR 0x27 # ''NoneType'' @ CHR 0x27 # '' object is not callable''))"
  by (simp add: DotDict_getattr_getattr str_column_raises DataObject_str_def DataObject_init_def
      py_call_def)


section \<open>Properties of the hitcount columns\<close>

lemma nth_concat_uniform:
  assumes "\<And>x. x \<in> set xs \<Longrightarrow> length (f x) = k" and "i < length xs" and "j < k"
  shows "concat (map f xs) ! (i * k + j) = f (xs ! i) ! j"
  using assms
proof (induction xs arbitrary: i)
  case Nil
  then show ?case by simp
next
  case (Cons x xs)
  have len: "length (f x) = k"
    using Cons.prems(1) by simp
  show ?case
  proof (cases i)
    case 0
    then show ?thesis
      using len Cons.prems(3) by (simp add: nth_append)
  next
    case (Suc i')
    have "concat (map f xs) ! (i' * k + j) = f (xs ! i') ! j"
      using Cons.IH [of i'] Cons.prems Suc by simp
    then show ?thesis
      using len Suc by (simp add: nth_append)
  qed
qed

lemma length_sector_cols: "length sector_cols = 740"
  unfolding sector_cols_def by (simp add: length_concat o_def sum_list_triv)

lemma length_telescope_cols: "length telescope_cols = 18"
  unfolding telescope_cols_def by (simp add: length_concat o_def sum_list_triv)

lemma telescope_cols_explicit:
  "telescope_cols =
     [''stac1 INTEGER NOT NULL, '', ''stac2 INTEGER NOT NULL, '',
      ''std1p1 INTEGER NOT NULL, '', ''std1p2 INTEGER NOT NULL, '',
      ''std1p3 INTEGER NOT NULL, '', ''std1p4 INTEGER NOT NULL, '',
      ''std2p1 INTEGER NOT NULL, '',
      ''sttrash1 INTEGER NOT NULL, '', ''sttrash2 INTEGER NOT NULL, '',
      ''rtac1 INTEGER NOT NULL, '', ''rtac2 INTEGER NOT NULL, '',
      ''rtd1p1 INTEGER NOT NULL, '', ''rtd1p2 INTEGER NOT NULL, '',
      ''rtd1p3 INTEGER NOT NULL, '', ''rtd1p4 INTEGER NOT NULL, '',
      ''rtd2p1 INTEGER NOT NULL, '',
      ''rttrash1 INTEGER NOT NULL, '', ''rttrash2 INTEGER NOT NULL, '']"
  unfolding telescope_cols_def by (simp add: upt_rec format_0_def)

lemma sector_cols_nth:
  assumes "sector < 37" and "j < 20"
  shows "sector_cols ! (sector * 20 + j) =
     (map (\<lambda>proton. ''s'' @ format_0 2 sector @ ''p'' @ format_0 2 proton @ '' INTEGER NOT NULL, '')
          [1..<13]
      @ map (\<lambda>electron. ''s'' @ format_0 2 sector @ ''e'' @ format_0 2 electron @ '' INTEGER NOT NULL, '')
          [1..<9]) ! j"
proof -
  have "sector_cols ! (sector * 20 + j) =
     (map (\<lambda>proton. ''s'' @ format_0 2 ([0..<37] ! sector) @ ''p'' @ format_0 2 proton @ '' INTEGER NOT NULL, '')
          [1..<13]
      @ map (\<lambda>electron. ''s'' @ format_0 2 ([0..<37] ! sector) @ ''e'' @ format_0 2 electron @ '' INTEGER NOT NULL, '')
          [1..<9]) ! j"
    unfolding sector_cols_def
    by (rule nth_concat_uniform) (use assms in simp_all)
  then show ?thesis
    using assms(1) by simp
qed

lemma sector_cols_proton:
  assumes "sector < 37" and "1 \<le> proton" and "proton \<le> 12"
  shows "sector_cols ! (sector * 20 + (proton - 1)) =
           ''s'' @ format_0 2 sector @ ''p'' @ format_0 2 proton @ '' INTEGER NOT NULL, ''"
proof -
  obtain k where k: "proton = Suc k" and k12: "k < 12"
    using assms(2,3) by (cases proton) auto
  have k20: "k < 20" using k12 by simp
  have nth: "[1..<13] ! k = Suc k"
    using k12 by (simp add: nth_upt)
  have "sector_cols ! (sector * 20 + k) =
     map (\<lambda>proton. ''s'' @ format_0 2 sector @ ''p'' @ format_0 2 proton @ '' INTEGER NOT NULL, '')
          [1..<13] ! k"
    using sector_cols_nth [OF assms(1) k20] k12 by (simp add: nth_append)
  also have "\<dots> = ''s'' @ format_0 2 sector @ ''p'' @ format_0 2 (Suc k) @ '' INTEGER NOT NULL, ''"
    using k12 nth by (simp del: upt_Suc)
  finally show ?thesis
    using k by simp
qed

lemma sector_cols_electron:
  assumes "sector < 37" and "1 \<le> electron" and "electron \<le> 8"
  shows "sector_cols ! (sector * 20 + 12 + (electron - 1)) =
           ''s'' @ format_0 2 sector @ ''e'' @ format_0 2 electron @ '' INTEGER NOT NULL, ''"
proof -
  obtain k where k: "electron = Suc k" and k8: "k < 8"
    using assms(2,3) by (cases electron) auto
  have k20: "12 + k < 20" using k8 by simp
  have nth: "[1..<9] ! k = Suc k"
    using k8 by (simp add: nth_upt)
  have "sector_cols ! (sector * 20 + (12 + k)) =
     map (\<lambda>electron. ''s'' @ format_0 2 sector @ ''e'' @ format_0 2 electron @ '' INTEGER NOT NULL, '')
          [1..<9] ! k"
    using sector_cols_nth [OF assms(1) k20] k8 by (simp add: nth_append)
  also have "\<dots> = ''s'' @ format_0 2 sector @ ''e'' @ format_0 2 (Suc k) @ '' INTEGER NOT NULL, ''"
    using k8 nth by (simp del: upt_Suc)
  finally show ?thesis
    using k by (simp add: add.assoc)
qed

text \<open>
  C9. The generated column definitions are a fixed list: 37 sectors of 12 proton and 8
  electron counters, 740 in all, the counter of sector \<open>s\<close> and channel \<open>p\<close> or \<open>e\<close> at a
  fixed place with a fixed name, followed by the 9 counters of each of the two telescopes,
  18 in all; together \<open>37 \<times> 20 + 2 \<times> 9\<close> columns. The statement is this text: the
  head that declares the key columns \<^verbatim>\<open>timestamp\<close> and \<^verbatim>\<open>session_id\<close> and nothing
  else, the generated definitions, and the tail with the foreign key.
\<close>

theorem hitcount_columns:
  "length sector_cols = 37 * (12 + 8)
   \<and> length telescope_cols = 2 * (2 + 4 + 1 + 2)
   \<and> length cols = 37 * 20 + 2 * 9
   \<and> cols = sector_cols @ telescope_cols
   \<and> (sector < 37 \<and> 1 \<le> proton \<and> proton \<le> 12 \<longrightarrow>
        cols ! (sector * 20 + (proton - 1)) =
          ''s'' @ format_0 2 sector @ ''p'' @ format_0 2 proton @ '' INTEGER NOT NULL, '')
   \<and> (sector < 37 \<and> 1 \<le> electron \<and> electron \<le> 8 \<longrightarrow>
        cols ! (sector * 20 + 12 + (electron - 1)) =
          ''s'' @ format_0 2 sector @ ''e'' @ format_0 2 electron @ '' INTEGER NOT NULL, '')
   \<and> telescope_cols =
       [''stac1 INTEGER NOT NULL, '', ''stac2 INTEGER NOT NULL, '',
        ''std1p1 INTEGER NOT NULL, '', ''std1p2 INTEGER NOT NULL, '',
        ''std1p3 INTEGER NOT NULL, '', ''std1p4 INTEGER NOT NULL, '',
        ''std2p1 INTEGER NOT NULL, '',
        ''sttrash1 INTEGER NOT NULL, '', ''sttrash2 INTEGER NOT NULL, '',
        ''rtac1 INTEGER NOT NULL, '', ''rtac2 INTEGER NOT NULL, '',
        ''rtd1p1 INTEGER NOT NULL, '', ''rtd1p2 INTEGER NOT NULL, '',
        ''rtd1p3 INTEGER NOT NULL, '', ''rtd1p4 INTEGER NOT NULL, '',
        ''rtd2p1 INTEGER NOT NULL, '',
        ''rttrash1 INTEGER NOT NULL, '', ''rttrash2 INTEGER NOT NULL, '']
   \<and> hitcount_sql =
       [CHR 0x0A] @ ''    CREATE TABLE hitcount'' @
       [CHR 0x0A] @ ''    ('' @
       [CHR 0x0A] @ ''        timestamp       INTEGER NOT NULL DEFAULT CURRENT_TIME PRIMARY KEY,'' @
       [CHR 0x0A] @ ''        session_id      INTEGER NOT NULL,'' @
       [CHR 0x0A] @ ''    '' @
       concat cols @
       '' FOREIGN KEY (session_id) REFERENCES testing_session (id) )''"
proof -
  have p: "cols ! (sector * 20 + (proton - 1)) =
          ''s'' @ format_0 2 sector @ ''p'' @ format_0 2 proton @ '' INTEGER NOT NULL, ''"
    if "sector < 37" and "1 \<le> proton" and "proton \<le> 12"
  proof -
    have "sector * 20 + (proton - 1) < length sector_cols"
      using that by (simp add: length_sector_cols)
    then show ?thesis
      using sector_cols_proton [OF that] by (simp add: cols_def nth_append)
  qed
  have q: "cols ! (sector * 20 + 12 + (electron - 1)) =
          ''s'' @ format_0 2 sector @ ''e'' @ format_0 2 electron @ '' INTEGER NOT NULL, ''"
    if "sector < 37" and "1 \<le> electron" and "electron \<le> 8"
  proof -
    have "sector * 20 + 12 + (electron - 1) < length sector_cols"
      using that by (simp add: length_sector_cols)
    then show ?thesis
      using sector_cols_electron [OF that] by (simp add: cols_def nth_append)
  qed
  have l: "length cols = 37 * 20 + 2 * 9"
    by (simp add: cols_def length_sector_cols length_telescope_cols)
  show ?thesis
    using p q l length_sector_cols length_telescope_cols telescope_cols_explicit
    by (simp add: cols_def hitcount_sql_def hitcount_head_def hitcount_tail_def)
qed

theorem hitcount_columns_witness:
  "(36::nat) < 37 \<and> (1::nat) \<le> 12 \<and> (1::nat) \<le> 8 \<and> (8::nat) \<le> 8
   \<and> cols ! 731 = ''s36p12 INTEGER NOT NULL, ''
   \<and> cols ! 739 = ''s36e08 INTEGER NOT NULL, ''
   \<and> cols ! 0 = ''s00p01 INTEGER NOT NULL, ''"
  using hitcount_columns [of 36 12 8] hitcount_columns [of 0 1 1]
  by (simp add: format_0_def)


end
